theory Spec2Isabelle
  imports Main "HOL-Library.Sublist"
begin

section \<open>The host: errors, file system, network, output\<close>

text \<open>
  The module \<^verbatim>\<open>ai_testsuite.py\<close> is glue around the file system, one HTTP
  resource and the test runner. Its functions are embedded as state transformers over
  a record of that environment. A path is the list of its components, so
  \<^verbatim>\<open>join(d, name)\<close> is \<open>d @ [name]\<close>.
\<close>

type_synonym path = "string list"

datatype node = File string | Dir

text \<open>What the module prints, logs, or passes to \<^verbatim>\<open>pytest.exit\<close> and
  \<^verbatim>\<open>pytest.skip\<close>; the arguments are the interpolated values.\<close>

datatype message =
    Test_data_not_present path
  | Using_local_archive int path
  | Valid_archive_found int path
  | Failed_to_retrieve_remote_size
  | Cannot_access_url_exit string
  | Cannot_access_url_using_local string int
  | Copying_local_tarfile
  | Deleting_test_dir
  | Restoring_local_tarfile
  | Skipped_on_this_device string

datatype error =
    FileNotFoundError
  | FileExistsError
  | IsADirectoryError
  | NotADirectoryError
  | SameFileError
  | URLError
  | TypeError
  | ContentTooShortError
  | ReadError
  | NameError string
  | IndexError
  | AssertionError
  | Exit message
  | Skipped message

text \<open>One answer of the remote host to one \<^verbatim>\<open>urlopen\<close>: the host cannot be
  reached, or it replies with an optional \<^verbatim>\<open>Content-Length\<close> header and a body.\<close>

datatype response = Unreachable | Reply "int option" string

datatype event =
    Addinivalue_line string string
  | Urlopen string
  | Urlretrieve string path
  | Extractall path path
  | Logging_error message
  | Print message
  | Set_numba_compat_strictness bool

record world =
  fs :: "path \<Rightarrow> node option"
  net :: "response list"
  tmp_names :: "path list"
  trace :: "event list"

type_synonym 'a io = "world \<Rightarrow> (error + 'a) \<times> world"

definition bnd :: "'a io \<Rightarrow> ('a \<Rightarrow> 'b io) \<Rightarrow> 'b io" where
  "bnd m f w = (case m w of (Inl e, w') \<Rightarrow> (Inl e, w') | (Inr v, w') \<Rightarrow> f v w')"

definition emit :: "event \<Rightarrow> unit io" where
  "emit ev w = (Inr (), w\<lparr>trace := trace w @ [ev]\<rparr>)"

definition raise :: "error \<Rightarrow> 'a io" where
  "raise e w = (Inl e, w)"

subsection \<open>\<^verbatim>\<open>os.path\<close>, \<^verbatim>\<open>os\<close>, \<^verbatim>\<open>shutil\<close>\<close>

definition basename :: "path \<Rightarrow> path" where
  "basename p = (if p = [] then [] else [last p])"

definition exists :: "path \<Rightarrow> world \<Rightarrow> bool" where
  "exists p w = (fs w p \<noteq> None)"

text \<open>The \<^verbatim>\<open>st_size\<close> of a directory depends on the platform; 4096 is the usual
  value. No property below depends on it.\<close>

definition st_size_dir :: int where
  "st_size_dir = 4096"

definition getsize :: "path \<Rightarrow> int io" where
  "getsize p w =
     (case fs w p of
        None \<Rightarrow> (Inl FileNotFoundError, w)
      | Some (File b) \<Rightarrow> (Inr (int (length b)), w)
      | Some Dir \<Rightarrow> (Inr st_size_dir, w))"

definition remove_tree :: "path \<Rightarrow> (path \<Rightarrow> node option) \<Rightarrow> (path \<Rightarrow> node option)" where
  "remove_tree p f = (\<lambda>q. if prefix p q then None else f q)"

definition rmtree :: "path \<Rightarrow> unit io" where
  "rmtree p w =
     (case fs w p of
        None \<Rightarrow> (Inl FileNotFoundError, w)
      | Some (File b) \<Rightarrow> (Inl NotADirectoryError, w)
      | Some Dir \<Rightarrow> (Inr (), w\<lparr>fs := remove_tree p (fs w)\<rparr>))"

text \<open>\<^verbatim>\<open>rmtree(p, ignore_errors=True)\<close>: a failure leaves the tree and returns.\<close>

definition rmtree_ignore_errors :: "path \<Rightarrow> unit io" where
  "rmtree_ignore_errors p w =
     (case rmtree p w of (Inl e, w') \<Rightarrow> (Inr (), w') | (Inr u, w') \<Rightarrow> (Inr (), w'))"

definition mkdir :: "path \<Rightarrow> unit io" where
  "mkdir p w =
     (if fs w p \<noteq> None then (Inl FileExistsError, w)
      else case fs w (butlast p) of
        None \<Rightarrow> (Inl FileNotFoundError, w)
      | Some (File b) \<Rightarrow> (Inl NotADirectoryError, w)
      | Some Dir \<Rightarrow> (Inr (), w\<lparr>fs := (fs w)(p \<mapsto> Dir)\<rparr>))"

text \<open>\<^verbatim>\<open>open(p, 'wb')\<close> followed by writing \<open>b\<close>.\<close>

definition write_bytes :: "path \<Rightarrow> string \<Rightarrow> unit io" where
  "write_bytes p b w =
     (if fs w p = Some Dir then (Inl IsADirectoryError, w)
      else case fs w (butlast p) of
        None \<Rightarrow> (Inl FileNotFoundError, w)
      | Some (File c) \<Rightarrow> (Inl NotADirectoryError, w)
      | Some Dir \<Rightarrow> (Inr (), w\<lparr>fs := (fs w)(p \<mapsto> File b)\<rparr>))"

text \<open>\<^verbatim>\<open>shutil.copy2(src, dst)\<close>: a destination that is a directory stands for
  the file of the source's name inside it.\<close>

definition copy2 :: "path \<Rightarrow> path \<Rightarrow> unit io" where
  "copy2 src dst w =
     (let target = (if fs w dst = Some Dir then dst @ basename src else dst)
      in if fs w src \<noteq> None \<and> target = src then (Inl SameFileError, w)
         else case fs w src of
           None \<Rightarrow> (Inl FileNotFoundError, w)
         | Some Dir \<Rightarrow> (Inl IsADirectoryError, w)
         | Some (File b) \<Rightarrow> write_bytes target b w)"

subsection \<open>\<^verbatim>\<open>urllib.request\<close>\<close>

text \<open>Each request consumes the next pending answer of the remote host; with none
  pending the host is unreachable.\<close>

definition urlopen :: "string \<Rightarrow> (int option \<times> string) io" where
  "urlopen url w =
     (let w1 = w\<lparr>trace := trace w @ [Urlopen url]\<rparr>
      in case net w of
           [] \<Rightarrow> (Inl URLError, w1)
         | Unreachable # rs \<Rightarrow> (Inl URLError, w1\<lparr>net := rs\<rparr>)
         | Reply h b # rs \<Rightarrow> (Inr (h, b), w1\<lparr>net := rs\<rparr>))"

text \<open>\<^verbatim>\<open>urlretrieve(url, filename)\<close> opens the URL, then the file for writing,
  copies the body and complains afterwards when the body is shorter than announced.\<close>

definition urlretrieve :: "string \<Rightarrow> path \<Rightarrow> unit io" where
  "urlretrieve url filename w =
     (let w0 = w\<lparr>trace := trace w @ [Urlretrieve url filename]\<rparr>
      in case net w of
           [] \<Rightarrow> (Inl URLError, w0)
         | Unreachable # rs \<Rightarrow> (Inl URLError, w0\<lparr>net := rs\<rparr>)
         | Reply h b # rs \<Rightarrow>
             bnd (write_bytes filename b)
               (\<lambda>u. case h of
                      None \<Rightarrow> Pair (Inr ())
                    | Some n \<Rightarrow> if 0 \<le> n \<and> int (length b) < n
                               then raise ContentTooShortError else Pair (Inr ()))
               (w0\<lparr>net := rs\<rparr>))"

subsection \<open>\<^verbatim>\<open>tarfile\<close> and \<^verbatim>\<open>tempfile\<close>\<close>

text \<open>Reading a tar archive is not part of the module: the decoder \<open>untar\<close> is a
  parameter, giving the member files of an archive (relative path and bytes) or
  \<open>None\<close> when the bytes are no archive. \<^verbatim>\<open>extractall\<close> writes the members in
  order, creating missing directories on the way and overwriting files; what is
  already in the target and not named by a member stays. Extraction itself is taken
  to succeed once the archive is read.\<close>

type_synonym untar = "string \<Rightarrow> (path \<times> string) list option"

definition write_member :: "path \<Rightarrow> string \<Rightarrow> (path \<Rightarrow> node option) \<Rightarrow> (path \<Rightarrow> node option)" where
  "write_member p b f =
     (\<lambda>q. if q = p then Some (File b)
          else if strict_prefix q p \<and> f q = None then Some Dir
          else f q)"

fun extractall :: "(path \<times> string) list \<Rightarrow> path \<Rightarrow> (path \<Rightarrow> node option) \<Rightarrow> (path \<Rightarrow> node option)" where
  "extractall [] dst f = f"
| "extractall ((rel, b) # ms) dst f = extractall ms dst (write_member (dst @ rel) b f)"

text \<open>\<^verbatim>\<open>mkdtemp\<close> tries candidate names until one can be created; the candidates
  are the environment's.\<close>

fun mkdtemp_names :: "path list \<Rightarrow> path io" where
  "mkdtemp_names [] w = (Inl FileExistsError, w\<lparr>tmp_names := []\<rparr>)"
| "mkdtemp_names (d # ds) w =
     (case mkdir d (w\<lparr>tmp_names := ds\<rparr>) of
        (Inr u, w') \<Rightarrow> (Inr d, w')
      | (Inl e, w') \<Rightarrow> if e = FileExistsError then mkdtemp_names ds w' else (Inl e, w'))"

definition mkdtemp :: "path io" where
  "mkdtemp w = mkdtemp_names (tmp_names w) w"

text \<open>Leaving a \<^verbatim>\<open>TemporaryDirectory\<close> removes the tree; a directory that is
  already gone is not an error.\<close>

definition cleanup :: "path \<Rightarrow> unit io" where
  "cleanup d w =
     (case fs w d of
        None \<Rightarrow> (Inr (), w)
      | Some (File b) \<Rightarrow> (Inl NotADirectoryError, w)
      | Some Dir \<Rightarrow> (Inr (), w\<lparr>fs := remove_tree d (fs w)\<rparr>))"

text \<open>\<^verbatim>\<open>with tempfile.TemporaryDirectory() as temp_dir: body\<close>. The exit handler
  runs whether the body returns or raises.\<close>

definition with_TemporaryDirectory :: "(path \<Rightarrow> 'a io) \<Rightarrow> 'a io" where
  "with_TemporaryDirectory body w =
     (case mkdtemp w of
        (Inl e, w1) \<Rightarrow> (Inl e, w1)
      | (Inr d, w1) \<Rightarrow>
          (case body d w1 of
             (r, w2) \<Rightarrow>
               (case cleanup d w2 of
                  (Inl e, w3) \<Rightarrow> (Inl e, w3)
                | (Inr u, w3) \<Rightarrow> (r, w3))))"

section \<open>The module\<close>

definition TEST_DATA_FILENAME :: string where
  "TEST_DATA_FILENAME = ''test_data.tar.gz''"

definition TEST_DATA_URL :: string where
  "TEST_DATA_URL = ''https://github.com/NVIDIA/NeMo/releases/download/v1.0.0rc1/''"

definition TEST_DATA_SUBDIR :: string where
  "TEST_DATA_SUBDIR = ''.data''"

text \<open>The options registered by \<^verbatim>\<open>pytest_addoption\<close>.\<close>

record config =
  cpu :: bool
  use_local_test_data :: bool
  with_downloads :: bool
  relax_numba_compat :: "bool option"
  nightly :: bool

subsection \<open>Fixtures\<close>

definition device :: "config \<Rightarrow> string" where
  "device c = (if cpu c then ''CPU'' else ''GPU'')"

text \<open>The markers of a test item, closest first, each with its positional arguments.\<close>

type_synonym markers = "(string \<times> string list) list"

definition get_closest_marker :: "markers \<Rightarrow> string \<Rightarrow> string list option" where
  "get_closest_marker ms name = map_of ms name"

definition run_only_on_device_fixture :: "markers \<Rightarrow> string \<Rightarrow> error + unit" where
  "run_only_on_device_fixture ms dev =
     (case get_closest_marker ms ''run_only_on'' of
        None \<Rightarrow> Inr ()
      | Some args \<Rightarrow>
          (case args of
             [] \<Rightarrow> Inl IndexError
           | a # rest \<Rightarrow> if a \<noteq> dev then Inl (Skipped (Skipped_on_this_device dev)) else Inr ()))"

text \<open>\<^verbatim>\<open>cleanup_local_folder\<close> is a generator fixture: the part before the
  \<^verbatim>\<open>yield\<close>, the test body, and the part after it, which the runner executes
  whatever the body did. The three names are relative to the working directory.\<close>

definition cleanup_dirs :: "path \<Rightarrow> path list" where
  "cleanup_dirs cwd = [cwd @ [''lightning_logs''], cwd @ [''NeMo_experiments''], cwd @ [''nemo_experiments'']]"

definition cleanup_local_folder_setup :: "path \<Rightarrow> unit io" where
  "cleanup_local_folder_setup cwd w =
     (if exists (cwd @ [''lightning_logs'']) w then (Inl AssertionError, w)
      else if exists (cwd @ [''NeMo_experiments'']) w then (Inl AssertionError, w)
      else if exists (cwd @ [''nemo_experiments'']) w then (Inl AssertionError, w)
      else (Inr (), w))"

fun cleanup_loop :: "path list \<Rightarrow> unit io" where
  "cleanup_loop [] w = (Inr (), w)"
| "cleanup_loop (d # ds) w =
     (if exists d w then bnd (rmtree_ignore_errors d) (\<lambda>u. cleanup_loop ds) w
      else cleanup_loop ds w)"

definition cleanup_local_folder_teardown :: "path \<Rightarrow> unit io" where
  "cleanup_local_folder_teardown cwd = cleanup_loop (cleanup_dirs cwd)"

definition cleanup_local_folder :: "path \<Rightarrow> unit io \<Rightarrow> unit io" where
  "cleanup_local_folder cwd body w =
     (case cleanup_local_folder_setup cwd w of
        (Inl e, w1) \<Rightarrow> (Inl e, w1)
      | (Inr u, w1) \<Rightarrow>
          (case body w1 of
             (r, w2) \<Rightarrow>
               (case cleanup_local_folder_teardown cwd w2 of
                  (Inl e, w3) \<Rightarrow> (Inl e, w3)
                | (Inr v, w3) \<Rightarrow> (r, w3))))"

subsection \<open>Test data\<close>

definition extract_tar :: "untar \<Rightarrow> path \<Rightarrow> path \<Rightarrow> unit io" where
  "extract_tar U tar_path extract_to w =
     (case fs w tar_path of
        None \<Rightarrow> (Inl FileNotFoundError, w)
      | Some Dir \<Rightarrow> (Inl IsADirectoryError, w)
      | Some (File b) \<Rightarrow>
          (case U b of
             None \<Rightarrow> (Inl ReadError, w)
           | Some ms \<Rightarrow>
               (Inr (), w\<lparr>fs := extractall ms extract_to (fs w),
                          trace := trace w @ [Extractall tar_path extract_to]\<rparr>)))"

definition download_and_extract_data :: "untar \<Rightarrow> path \<Rightarrow> path \<Rightarrow> string \<Rightarrow> unit io" where
  "download_and_extract_data U test_dir test_data_archive url =
     bnd (urlretrieve url test_data_archive) (\<lambda>u. extract_tar U test_data_archive test_dir)"

definition handle_existing_data :: "path \<Rightarrow> path \<Rightarrow> bool \<Rightarrow> unit io" where
  "handle_existing_data test_dir test_data_archive local_data =
     (if \<not> local_data then rmtree test_dir
      else with_TemporaryDirectory (\<lambda>temp_dir.
        bnd (emit (Print Copying_local_tarfile)) (\<lambda>u.
        bnd (copy2 test_data_archive temp_dir) (\<lambda>u.
        bnd (emit (Print Deleting_test_dir)) (\<lambda>u.
        bnd (rmtree test_dir) (\<lambda>u.
        bnd (mkdir test_dir) (\<lambda>u.
        bnd (emit (Print Restoring_local_tarfile)) (\<lambda>u.
        copy2 (temp_dir @ basename test_data_archive) test_data_archive))))))))"

text \<open>\<^verbatim>\<open>url\<close> defaults to \<^verbatim>\<open>None\<close>; \<^verbatim>\<open>if url\<close> is false for
  \<^verbatim>\<open>None\<close> and for the empty string.\<close>

definition extract_data_from_tar :: "untar \<Rightarrow> path \<Rightarrow> path \<Rightarrow> string option \<Rightarrow> bool \<Rightarrow> unit io" where
  "extract_data_from_tar U test_dir test_data_archive url local_data =
     bnd (\<lambda>w. if exists test_dir w
              then handle_existing_data test_dir test_data_archive local_data w
              else mkdir test_dir w)
       (\<lambda>u. case url of
              None \<Rightarrow> extract_tar U test_data_archive test_dir
            | Some s \<Rightarrow>
                if s \<noteq> [] \<and> \<not> local_data
                then download_and_extract_data U test_dir test_data_archive s
                else extract_tar U test_data_archive test_dir)"

text \<open>Name lookup inside \<^verbatim>\<open>get_test_data_sizes\<close>. Its exception handler is
  reached with the parameters and the locals assigned so far bound; behind them are
  the module's globals. A name bound in neither raises \<^verbatim>\<open>NameError\<close>.\<close>

definition get_test_data_sizes_locals :: "string list" where
  "get_test_data_sizes_locals =
     [''config'', ''test_data_archive'', ''local_size'', ''remote_size'', ''url'', ''e'']"

definition module_globals :: "string list" where
  "module_globals =
     [''logging'', ''os'', ''shutil'', ''tarfile'', ''tempfile'', ''urllib'', ''mkdir'',
      ''dirname'', ''exists'', ''getsize'', ''join'', ''Path'', ''rmtree'', ''Tuple'', ''pytest'',
      ''__TEST_DATA_FILENAME'', ''__TEST_DATA_URL'', ''__TEST_DATA_SUBDIR'',
      ''pytest_addoption'', ''device'', ''run_only_on_device_fixture'', ''downloads_weights'',
      ''run_nightly_test_for_qa'', ''cleanup_local_folder'', ''test_data_dir'',
      ''download_and_extract_data'', ''extract_tar'', ''extract_data_from_tar'',
      ''handle_existing_data'', ''k2_is_appropriate'', ''k2_cuda_is_enabled'',
      ''pytest_configure'', ''get_test_data_sizes'']"

definition lookup_name :: "string \<Rightarrow> unit io" where
  "lookup_name x w =
     (if x \<in> set get_test_data_sizes_locals \<or> x \<in> set module_globals
      then (Inr (), w) else (Inl (NameError x), w))"

text \<open>The handler of \<^verbatim>\<open>except Exception as e\<close>. The message of the second
  branch interpolates \<^verbatim>\<open>url\<close>, \<^verbatim>\<open>local_size\<close> and \<^verbatim>\<open>test_dir\<close>, in this
  order, before \<^verbatim>\<open>print\<close> is called. The function has no parameter or local
  \<^verbatim>\<open>test_dir\<close>, so the message carries the first two values only.\<close>

definition remote_size_failed :: "string \<Rightarrow> int \<Rightarrow> unit io" where
  "remote_size_failed url local_size =
     bnd (emit (Logging_error Failed_to_retrieve_remote_size)) (\<lambda>u.
       if local_size = - 1
       then bnd (lookup_name ''url'') (\<lambda>u. raise (Exit (Cannot_access_url_exit url)))
       else bnd (lookup_name ''url'') (\<lambda>u.
            bnd (lookup_name ''local_size'') (\<lambda>u.
            bnd (lookup_name ''test_dir'') (\<lambda>u.
            emit (Print (Cannot_access_url_using_local url local_size))))))"

definition get_test_data_sizes :: "config \<Rightarrow> path \<Rightarrow> (int \<times> int) io" where
  "get_test_data_sizes c test_data_archive w =
     (let (r, w1) = getsize test_data_archive w;
          local_size = (case r of Inl e \<Rightarrow> - 1 | Inr n \<Rightarrow> n)
      in if \<not> use_local_test_data c
         then (let url = TEST_DATA_URL @ TEST_DATA_FILENAME
               in case urlopen url w1 of
                    (Inl e, w2) \<Rightarrow>
                      bnd (remote_size_failed url local_size)
                        (\<lambda>u. Pair (Inr (local_size, - 1))) w2
                  | (Inr (None, b), w2) \<Rightarrow>
                      bnd (remote_size_failed url local_size)
                        (\<lambda>u. Pair (Inr (local_size, - 1))) w2
                  | (Inr (Some n, b), w2) \<Rightarrow> (Inr (local_size, n), w2))
         else (Inr (local_size, - 1), w1))"

definition pytest_configure :: "untar \<Rightarrow> path \<Rightarrow> config \<Rightarrow> unit io" where
  "pytest_configure U here c =
     bnd (emit (Addinivalue_line ''markers''
            ''run_only_on(device): runs the test only on a given device [CPU | GPU]'')) (\<lambda>u.
     bnd (emit (Addinivalue_line ''markers''
            ''with_downloads: runs the test using data present in tests/.data'')) (\<lambda>u.
     bnd (emit (Addinivalue_line ''markers'' ''nightly: runs the nightly test for QA.'')) (\<lambda>u.
     (let test_dir = here @ [TEST_DATA_SUBDIR];
          test_data_archive = test_dir @ [TEST_DATA_FILENAME]
      in bnd (get_test_data_sizes c test_data_archive) (\<lambda>(local_size, remote_size).
         bnd (if use_local_test_data c
              then (if local_size = - 1
                    then raise (Exit (Test_data_not_present test_data_archive))
                    else emit (Print (Using_local_archive local_size test_dir)))
              else Pair (Inr ())) (\<lambda>u.
         bnd (if \<not> use_local_test_data c
              then (let url = TEST_DATA_URL @ TEST_DATA_FILENAME
                    in if remote_size \<noteq> local_size
                       then download_and_extract_data U test_dir test_data_archive url
                       else emit (Print (Valid_archive_found local_size test_dir)))
              else extract_tar U test_data_archive test_dir) (\<lambda>u.
         (case relax_numba_compat c of
            None \<Rightarrow> Pair (Inr ())
          | Some strict \<Rightarrow> emit (Set_numba_compat_strictness strict)))))))))"

section \<open>Notions used to state the properties\<close>

text \<open>The three marker lines \<^verbatim>\<open>pytest_configure\<close> registers first, and what its
  last statement adds to the trace.\<close>

definition ini_events :: "event list" where
  "ini_events =
     [Addinivalue_line ''markers''
        ''run_only_on(device): runs the test only on a given device [CPU | GPU]'',
      Addinivalue_line ''markers''
        ''with_downloads: runs the test using data present in tests/.data'',
      Addinivalue_line ''markers'' ''nightly: runs the nightly test for QA.'']"

definition numba_events :: "config \<Rightarrow> event list" where
  "numba_events c =
     (case relax_numba_compat c of None \<Rightarrow> [] | Some strict \<Rightarrow> [Set_numba_compat_strictness strict])"

text \<open>The events that move test data: a download and an extraction.\<close>

fun is_transfer :: "event \<Rightarrow> bool" where
  "is_transfer (Urlretrieve url p) = True"
| "is_transfer (Extractall a d) = True"
| "is_transfer ev = False"

text \<open>Sessions run one after the other on one machine: each starts
  \<^verbatim>\<open>pytest_configure\<close> in the environment the previous one left.\<close>

fun sessions :: "untar \<Rightarrow> path \<Rightarrow> config \<Rightarrow> nat \<Rightarrow> world \<Rightarrow> (error + unit) list \<times> world" where
  "sessions U here c 0 w = ([], w)"
| "sessions U here c (Suc k) w =
     (case pytest_configure U here c w of
        (r, w1) \<Rightarrow> (case sessions U here c k w1 of (rs, w2) \<Rightarrow> (r # rs, w2)))"

text \<open>In a file system every entry but the root lies in a directory.\<close>

definition wf_fs :: "(path \<Rightarrow> node option) \<Rightarrow> bool" where
  "wf_fs f = (\<forall>p. f p \<noteq> None \<and> p \<noteq> [] \<longrightarrow> f (butlast p) = Some Dir)"

text \<open>What holds of the holding directory \<open>d\<close> while the body of the \<^verbatim>\<open>with\<close>
  statement runs: it is a directory, or it is gone together with every file below it.\<close>

definition holding_inv :: "path \<Rightarrow> world \<Rightarrow> bool" where
  "holding_inv d w =
     (fs w d = Some Dir \<or> (fs w d = None \<and> (\<forall>q b. prefix d q \<longrightarrow> fs w q \<noteq> Some (File b))))"

definition preserves :: "path \<Rightarrow> 'a io \<Rightarrow> bool" where
  "preserves d m = (\<forall>w. holding_inv d w \<longrightarrow> holding_inv d (snd (m w)))"

subsection \<open>Sample environments\<close>

definition sample_config :: "bool \<Rightarrow> bool \<Rightarrow> config" where
  "sample_config cpu_flag local_flag =
     \<lparr>cpu = cpu_flag, use_local_test_data = local_flag, with_downloads = False,
      relax_numba_compat = Some True, nightly = False\<rparr>"

definition sample_untar :: untar where
  "sample_untar b =
     (if b = ''NEWER'' then Some [([''a.txt''], ''A'')]
      else if b = ''OLD'' then Some [([''old.txt''], ''O'')]
      else None)"

text \<open>A checkout whose data directory holds an archive and a file of an earlier
  extraction, and a checkout without data directory.\<close>

definition sample_fs :: "path \<Rightarrow> node option" where
  "sample_fs =
     map_of [([], Dir), ([''repo''], Dir), ([''repo'', ''.data''], Dir),
             ([''repo'', ''.data'', ''test_data.tar.gz''], File ''OLD''),
             ([''repo'', ''.data'', ''stale.txt''], File ''S''),
             ([''tmp''], Dir)]"

definition fresh_fs :: "path \<Rightarrow> node option" where
  "fresh_fs = map_of [([], Dir), ([''repo''], Dir), ([''tmp''], Dir)]"

definition sample_world :: "(path \<Rightarrow> node option) \<Rightarrow> response list \<Rightarrow> world" where
  "sample_world f rs = \<lparr>fs = f, net = rs, tmp_names = [[''tmp'', ''tmp0'']], trace = []\<rparr>"

section \<open>Properties\<close>

subsection \<open>Device gating\<close>

text \<open>
  C8. A test whose closest \<^verbatim>\<open>run_only_on\<close> marker has the device \<open>d\<close> as first
  argument is skipped exactly when \<open>d\<close> differs from the device of the \<^verbatim>\<open>device\<close>
  fixture, which is "CPU" when \<^verbatim>\<open>--cpu\<close> is passed and "GPU" otherwise; when the
  two agree the fixture returns and the test runs.
\<close>

theorem run_only_on_skips_iff_other_device:
  assumes "get_closest_marker ms ''run_only_on'' = Some (d # rest)"
  shows "device c = (if cpu c then ''CPU'' else ''GPU'') \<and>
         run_only_on_device_fixture ms (device c) =
           (if d \<noteq> device c then Inl (Skipped (Skipped_on_this_device (device c))) else Inr ())"
  using assms by (simp add: run_only_on_device_fixture_def device_def)

theorem run_only_on_gpu_skipped_on_cpu:
  "get_closest_marker [(''run_only_on'', [''GPU''])] ''run_only_on'' = Some (''GPU'' # []) \<and>
   run_only_on_device_fixture [(''run_only_on'', [''GPU''])] (device (sample_config True False))
     = Inl (Skipped (Skipped_on_this_device ''CPU''))"
proof -
  have h: "get_closest_marker [(''run_only_on'', [''GPU''])] ''run_only_on'' = Some (''GPU'' # [])"
    by (simp add: get_closest_marker_def)
  from run_only_on_skips_iff_other_device [OF h, of "sample_config True False"]
  show ?thesis using h by (simp add: device_def sample_config_def)
qed

subsection \<open>Session setup with local data only\<close>

text \<open>
  C2. With \<^verbatim>\<open>--use_local_test_data\<close> set and no archive at the archive's path,
  \<^verbatim>\<open>pytest_configure\<close> raises the runner's \<^verbatim>\<open>Exit\<close>. Up to then it has
  registered its three marker lines and nothing else: the file system and the pending
  network answers are untouched, and nothing was extracted. The hook runs before
  collection, so no test has run.
\<close>

theorem use_local_without_archive_exits:
  assumes "use_local_test_data c"
    and "fs w (here @ [TEST_DATA_SUBDIR, TEST_DATA_FILENAME]) = None"
  shows "pytest_configure U here c w =
           (Inl (Exit (Test_data_not_present (here @ [TEST_DATA_SUBDIR, TEST_DATA_FILENAME]))),
            w\<lparr>trace := trace w @ ini_events\<rparr>)"
  using assms
  by (simp add: pytest_configure_def get_test_data_sizes_def getsize_def bnd_def emit_def
      raise_def ini_events_def Let_def)

theorem use_local_without_archive_exits_on_fresh_checkout:
  "use_local_test_data (sample_config False True) \<and>
   fs (sample_world fresh_fs []) ([''repo''] @ [TEST_DATA_SUBDIR, TEST_DATA_FILENAME]) = None \<and>
   pytest_configure sample_untar [''repo''] (sample_config False True) (sample_world fresh_fs []) =
     (Inl (Exit (Test_data_not_present [''repo'', ''.data'', ''test_data.tar.gz''])),
      \<lparr>fs = fresh_fs, net = [], tmp_names = [[''tmp'', ''tmp0'']], trace = ini_events\<rparr>)"
proof -
  have h1: "use_local_test_data (sample_config False True)"
    by (simp add: sample_config_def)
  have h2: "fs (sample_world fresh_fs []) ([''repo''] @ [TEST_DATA_SUBDIR, TEST_DATA_FILENAME]) = None"
    by (simp add: sample_world_def fresh_fs_def TEST_DATA_SUBDIR_def TEST_DATA_FILENAME_def)
  from use_local_without_archive_exits [OF h1 h2, of sample_untar]
  show ?thesis using h1 h2
    by (simp add: sample_world_def TEST_DATA_SUBDIR_def TEST_DATA_FILENAME_def)
qed

subsection \<open>Session setup with local data only, archive present\<close>

text \<open>
  C6. With \<^verbatim>\<open>--use_local_test_data\<close> set and an archive file \<open>b\<close> at the archive's
  path, \<^verbatim>\<open>pytest_configure\<close> makes no request: the pending network answers are
  those it started with and the trace gains no \<open>Urlopen\<close> and no \<open>Urlretrieve\<close>.
  The bytes \<open>b\<close> are handed to the tar reader as they are; when they decode, the
  members are extracted into the data directory, and when they do not, the reader's
  error ends the hook.
\<close>

theorem use_local_with_archive_no_network:
  assumes "use_local_test_data c"
    and "fs w (here @ [TEST_DATA_SUBDIR, TEST_DATA_FILENAME]) = Some (File b)"
  shows "pytest_configure U here c w =
     (case U b of
        None \<Rightarrow>
          (Inl ReadError,
           w\<lparr>trace := trace w @ ini_events @
              [Print (Using_local_archive (int (length b)) (here @ [TEST_DATA_SUBDIR]))]\<rparr>)
      | Some ms \<Rightarrow>
          (Inr (),
           w\<lparr>fs := extractall ms (here @ [TEST_DATA_SUBDIR]) (fs w),
             trace := trace w @ ini_events @
              [Print (Using_local_archive (int (length b)) (here @ [TEST_DATA_SUBDIR])),
               Extractall (here @ [TEST_DATA_SUBDIR, TEST_DATA_FILENAME]) (here @ [TEST_DATA_SUBDIR])]
              @ numba_events c\<rparr>))"
  using assms
  by (simp add: pytest_configure_def get_test_data_sizes_def getsize_def bnd_def emit_def
      raise_def ini_events_def Let_def extract_tar_def numba_events_def split: option.splits)

theorem use_local_with_archive_extracts_old:
  "use_local_test_data (sample_config False True) \<and>
   fs (sample_world sample_fs [Unreachable]) ([''repo''] @ [TEST_DATA_SUBDIR, TEST_DATA_FILENAME])
     = Some (File ''OLD'') \<and>
   pytest_configure sample_untar [''repo''] (sample_config False True)
       (sample_world sample_fs [Unreachable]) =
     (Inr (),
      \<lparr>fs = extractall [([''old.txt''], ''O'')] [''repo'', ''.data''] sample_fs,
        net = [Unreachable], tmp_names = [[''tmp'', ''tmp0'']],
        trace = ini_events @
          [Print (Using_local_archive 3 [''repo'', ''.data'']),
           Extractall [''repo'', ''.data'', ''test_data.tar.gz''] [''repo'', ''.data''],
           Set_numba_compat_strictness True]\<rparr>)"
proof -
  have h1: "use_local_test_data (sample_config False True)"
    by (simp add: sample_config_def)
  have h2: "fs (sample_world sample_fs [Unreachable])
      ([''repo''] @ [TEST_DATA_SUBDIR, TEST_DATA_FILENAME]) = Some (File ''OLD'')"
    by (simp add: sample_world_def sample_fs_def TEST_DATA_SUBDIR_def TEST_DATA_FILENAME_def)
  from use_local_with_archive_no_network [OF h1 h2, of sample_untar]
  show ?thesis using h1 h2
    by (simp add: sample_world_def sample_untar_def numba_events_def sample_config_def
        TEST_DATA_SUBDIR_def TEST_DATA_FILENAME_def)
qed

subsection \<open>Session setup when the sizes agree\<close>

lemma configure_same_size:
  assumes "\<not> use_local_test_data c"
    and "fst (getsize (here @ [TEST_DATA_SUBDIR, TEST_DATA_FILENAME]) w) = Inr n"
    and "net w = Reply (Some n) b # rs"
  shows "pytest_configure U here c w =
     (Inr (),
      w\<lparr>net := rs,
        trace := trace w @ ini_events @
          [Urlopen (TEST_DATA_URL @ TEST_DATA_FILENAME),
           Print (Valid_archive_found n (here @ [TEST_DATA_SUBDIR]))] @ numba_events c\<rparr>)"
  using assms
  by (simp add: pytest_configure_def get_test_data_sizes_def getsize_def bnd_def emit_def
      raise_def ini_events_def Let_def urlopen_def numba_events_def
      split: option.splits node.splits)

text \<open>
  C5. Without \<^verbatim>\<open>--use_local_test_data\<close>, let the local archive have size \<open>n\<close> and
  let the remote host announce the content length \<open>n\<close> in each of the next \<open>k\<close>
  sessions. Then each of these sessions succeeds, spends one request (the query of the
  length), downloads nothing and extracts nothing, and the file system after the \<open>k\<close>
  sessions is the one before them.
\<close>

theorem same_size_never_downloads:
  assumes "\<not> use_local_test_data c"
    and "fst (getsize (here @ [TEST_DATA_SUBDIR, TEST_DATA_FILENAME]) w) = Inr n"
    and "\<forall>r \<in> set (take k (net w)). \<exists>b. r = Reply (Some n) b"
    and "k \<le> length (net w)"
  shows "fst (sessions U here c k w) = replicate k (Inr ()) \<and>
         fs (snd (sessions U here c k w)) = fs w \<and>
         net (snd (sessions U here c k w)) = drop k (net w) \<and>
         filter is_transfer (trace (snd (sessions U here c k w))) = filter is_transfer (trace w)"
  using assms
proof (induction k arbitrary: w)
  case 0
  then show ?case by simp
next
  case (Suc k)
  from Suc.prems(3,4) obtain b rs where nw: "net w = Reply (Some n) b # rs"
    by (cases "net w") auto
  define w1 where "w1 = w\<lparr>net := rs,
        trace := trace w @ ini_events @
          [Urlopen (TEST_DATA_URL @ TEST_DATA_FILENAME),
           Print (Valid_archive_found n (here @ [TEST_DATA_SUBDIR]))] @ numba_events c\<rparr>"
  have step: "pytest_configure U here c w = (Inr (), w1)"
    unfolding w1_def by (rule configure_same_size [OF Suc.prems(1,2) nw])
  have same: "fs w1 = fs w" "net w1 = rs"
    by (simp_all add: w1_def)
  have g: "fst (getsize (here @ [TEST_DATA_SUBDIR, TEST_DATA_FILENAME]) w1) = Inr n"
    using Suc.prems(2) by (simp add: getsize_def same split: option.splits node.splits)
  have a: "\<forall>r \<in> set (take k (net w1)). \<exists>b. r = Reply (Some n) b"
    using Suc.prems(3) nw by (simp add: same)
  have l: "k \<le> length (net w1)"
    using Suc.prems(4) nw by (simp add: same)
  note ih = Suc.IH [OF Suc.prems(1) g a l]
  have tr: "filter is_transfer (trace w1) = filter is_transfer (trace w)"
    by (simp add: w1_def ini_events_def numba_events_def split: option.splits)
  have unroll: "sessions U here c (Suc k) w =
      (Inr () # fst (sessions U here c k w1), snd (sessions U here c k w1))"
    by (simp add: step case_prod_beta)
  show ?case using ih tr nw
    by (simp add: unroll same del: sessions.simps)
qed

theorem same_size_two_sessions:
  "\<not> use_local_test_data (sample_config False False) \<and>
   fst (getsize ([''repo''] @ [TEST_DATA_SUBDIR, TEST_DATA_FILENAME])
          (sample_world sample_fs [Reply (Some 3) ''NEW'', Reply (Some 3) ''NEW''])) = Inr 3 \<and>
   take 2 (net (sample_world sample_fs [Reply (Some 3) ''NEW'', Reply (Some 3) ''NEW''])) =
     [Reply (Some 3) ''NEW'', Reply (Some 3) ''NEW''] \<and>
   2 \<le> length (net (sample_world sample_fs [Reply (Some 3) ''NEW'', Reply (Some 3) ''NEW''])) \<and>
   fst (sessions sample_untar [''repo''] (sample_config False False) 2
          (sample_world sample_fs [Reply (Some 3) ''NEW'', Reply (Some 3) ''NEW''])) = [Inr (), Inr ()] \<and>
   fs (snd (sessions sample_untar [''repo''] (sample_config False False) 2
          (sample_world sample_fs [Reply (Some 3) ''NEW'', Reply (Some 3) ''NEW'']))) = sample_fs \<and>
   net (snd (sessions sample_untar [''repo''] (sample_config False False) 2
          (sample_world sample_fs [Reply (Some 3) ''NEW'', Reply (Some 3) ''NEW'']))) = [] \<and>
   filter is_transfer (trace (snd (sessions sample_untar [''repo''] (sample_config False False) 2
          (sample_world sample_fs [Reply (Some 3) ''NEW'', Reply (Some 3) ''NEW''])))) = []"
proof -
  let ?w = "sample_world sample_fs [Reply (Some 3) ''NEW'', Reply (Some 3) ''NEW'']"
  have h1: "\<not> use_local_test_data (sample_config False False)"
    by (simp add: sample_config_def)
  have h2: "fst (getsize ([''repo''] @ [TEST_DATA_SUBDIR, TEST_DATA_FILENAME]) ?w) = Inr 3"
    by (simp add: getsize_def sample_world_def sample_fs_def TEST_DATA_SUBDIR_def
        TEST_DATA_FILENAME_def)
  have h3: "\<forall>r \<in> set (take 2 (net ?w)). \<exists>b. r = Reply (Some 3) b"
    by (simp add: sample_world_def)
  have h4: "2 \<le> length (net ?w)"
    by (simp add: sample_world_def)
  from same_size_never_downloads [OF h1 h2 h3 h4, of sample_untar]
  have "fst (sessions sample_untar [''repo''] (sample_config False False) 2 ?w) = replicate 2 (Inr ()) \<and>
        fs (snd (sessions sample_untar [''repo''] (sample_config False False) 2 ?w)) = fs ?w \<and>
        net (snd (sessions sample_untar [''repo''] (sample_config False False) 2 ?w)) = drop 2 (net ?w) \<and>
        filter is_transfer (trace (snd (sessions sample_untar [''repo''] (sample_config False False) 2 ?w)))
          = filter is_transfer (trace ?w)" .
  moreover have "replicate 2 (Inr ()) = [Inr (), Inr () :: error + unit]"
    by (simp add: numeral_2_eq_2)
  moreover have "fs ?w = sample_fs" "drop 2 (net ?w) = []" "filter is_transfer (trace ?w) = []"
    by (simp_all add: sample_world_def)
  moreover have "take 2 (net ?w) = [Reply (Some 3) ''NEW'', Reply (Some 3) ''NEW'']"
    by (simp add: sample_world_def)
  ultimately show ?thesis using h1 h2 h4 by simp
qed

subsection \<open>Experiment directories around each test\<close>

lemma rmtree_ignore_errors_eq:
  "rmtree_ignore_errors p w =
     (Inr (), if fs w p = Some Dir then w\<lparr>fs := remove_tree p (fs w)\<rparr> else w)"
  by (simp add: rmtree_ignore_errors_def rmtree_def split: option.splits node.splits)

lemma cleanup_step:
  "(if exists p w then bnd (rmtree_ignore_errors p) (\<lambda>u. k) w else k w) =
     k (if fs w p = Some Dir then w\<lparr>fs := remove_tree p (fs w)\<rparr> else w)"
  by (auto simp add: bnd_def rmtree_ignore_errors_eq exists_def)

lemma teardown_eq:
  "cleanup_local_folder_teardown cwd w =
     (Inr (), w\<lparr>fs := (\<lambda>q. if \<exists>p \<in> set (cleanup_dirs cwd). fs w p = Some Dir \<and> prefix p q
                          then None else fs w q)\<rparr>)"
proof -
  have "(\<lambda>q. if \<exists>p \<in> set (cleanup_dirs cwd). fs w p = Some Dir \<and> prefix p q
                          then None else fs w q) = fs (snd (cleanup_local_folder_teardown cwd w))"
    by (rule ext) (simp add: cleanup_local_folder_teardown_def cleanup_dirs_def cleanup_step
        remove_tree_def)
  moreover have "cleanup_local_folder_teardown cwd w =
     (Inr (), w\<lparr>fs := fs (snd (cleanup_local_folder_teardown cwd w))\<rparr>)"
    by (simp add: cleanup_local_folder_teardown_def cleanup_dirs_def cleanup_step)
  ultimately show ?thesis by simp
qed

text \<open>
  C10. Around a test body, \<^verbatim>\<open>cleanup_local_folder\<close> behaves as follows. When one of
  \<^verbatim>\<open>./lightning_logs\<close>, \<^verbatim>\<open>./NeMo_experiments\<close>, \<^verbatim>\<open>./nemo_experiments\<close> exists
  beforehand, an assertion fails and the body does not run: the environment is as it
  was. Otherwise the body runs, its outcome \<open>r\<close> is the outcome of the test, and
  afterwards each of the three paths that the body left as a directory is gone with
  everything below it, while the rest of the file system is as the body left it. So a
  body only ever runs where none of the three exists.
\<close>

theorem cleanup_local_folder_guards_and_removes:
  assumes "body w = (r, w2)"
  shows "cleanup_local_folder cwd body w =
     (if \<exists>p \<in> set (cleanup_dirs cwd). exists p w then (Inl AssertionError, w)
      else (r, w2\<lparr>fs := (\<lambda>q. if \<exists>p \<in> set (cleanup_dirs cwd). fs w2 p = Some Dir \<and> prefix p q
                             then None else fs w2 q)\<rparr>))"
  using assms
  by (simp add: cleanup_local_folder_def cleanup_local_folder_setup_def teardown_eq)
     (simp add: cleanup_dirs_def)

theorem cleanup_local_folder_removes_lightning_logs:
  "mkdir [''repo'', ''lightning_logs''] (sample_world fresh_fs []) =
     (Inr (), sample_world (fresh_fs([''repo'', ''lightning_logs''] \<mapsto> Dir)) []) \<and>
   fst (cleanup_local_folder [''repo''] (mkdir [''repo'', ''lightning_logs''])
          (sample_world fresh_fs [])) = Inr () \<and>
   fs (snd (cleanup_local_folder [''repo''] (mkdir [''repo'', ''lightning_logs''])
          (sample_world fresh_fs []))) [''repo'', ''lightning_logs''] = None \<and>
   fs (snd (cleanup_local_folder [''repo''] (mkdir [''repo'', ''lightning_logs''])
          (sample_world fresh_fs []))) [''repo''] = Some Dir"
proof -
  have h: "mkdir [''repo'', ''lightning_logs''] (sample_world fresh_fs []) =
     (Inr (), sample_world (fresh_fs([''repo'', ''lightning_logs''] \<mapsto> Dir)) [])"
    by (simp add: mkdir_def sample_world_def fresh_fs_def)
  from cleanup_local_folder_guards_and_removes
    [where body = "mkdir [''repo'', ''lightning_logs'']" and w = "sample_world fresh_fs []"
       and cwd = "[''repo'']", OF h]
  show ?thesis using h
    by (simp add: cleanup_dirs_def exists_def sample_world_def fresh_fs_def)
qed

subsection \<open>The holding directory of \<^verbatim>\<open>handle_existing_data\<close>\<close>

lemma bnd_snd_cases:
  "snd (bnd m f w) = (case fst (m w) of Inl e \<Rightarrow> snd (m w) | Inr v \<Rightarrow> snd (f v (snd (m w))))"
  by (simp add: bnd_def split: prod.splits sum.splits)

lemma bnd_inv:
  assumes "holding_inv d (snd (m w))"
    and "\<And>v. holding_inv d (snd (m w)) \<Longrightarrow> holding_inv d (snd (f v (snd (m w))))"
  shows "holding_inv d (snd (bnd m f w))"
  using assms by (simp add: bnd_snd_cases split: sum.splits)

lemma with_TemporaryDirectory_snd:
  "mkdtemp w = (Inr d, w1) \<Longrightarrow>
     snd (with_TemporaryDirectory body w) = snd (cleanup d (snd (body d w1)))"
  by (simp add: with_TemporaryDirectory_def split: prod.splits sum.splits)

lemma emit_fs [simp]: "fs (snd (emit ev w)) = fs w"
  by (simp add: emit_def)

lemma emit_inv: "holding_inv d w \<Longrightarrow> holding_inv d (snd (emit ev w))"
  by (simp add: holding_inv_def)

lemma write_bytes_keeps_dir: "fs w d = Some Dir \<Longrightarrow> fs (snd (write_bytes p b w)) d = Some Dir"
  by (auto simp add: write_bytes_def split: option.splits node.splits)

lemma copy2_keeps_dir: "fs w d = Some Dir \<Longrightarrow> fs (snd (copy2 src dst w)) d = Some Dir"
  by (auto simp add: copy2_def Let_def write_bytes_keeps_dir split: option.splits node.splits)

lemma mkdir_Inr:
  "mkdir p w = (Inr u, w') \<Longrightarrow>
     fs w p = None \<and> fs w (butlast p) = Some Dir \<and> w' = w\<lparr>fs := (fs w)(p \<mapsto> Dir)\<rparr>"
  by (simp add: mkdir_def split: if_splits option.splits node.splits)

lemma mkdir_Inl: "mkdir p w = (Inl e, w') \<Longrightarrow> w' = w"
  by (simp add: mkdir_def split: if_splits option.splits node.splits)


lemma rmtree_inv: "holding_inv d w \<Longrightarrow> holding_inv d (snd (rmtree p w))"
proof (cases "fs w p = Some Dir")
  case False
  then have "snd (rmtree p w) = w"
    by (simp add: rmtree_def split: option.splits node.splits)
  then show "holding_inv d w \<Longrightarrow> ?thesis" by simp
next
  case True
  assume inv: "holding_inv d w"
  have eq: "fs (snd (rmtree p w)) = remove_tree p (fs w)"
    using True by (simp add: rmtree_def)
  show ?thesis
  proof (cases "prefix p d")
    case True
    then have "\<And>q. prefix d q \<Longrightarrow> prefix p q"
      by (meson prefix_order.trans)
    then show ?thesis
      by (simp add: holding_inv_def eq remove_tree_def \<open>prefix p d\<close>)
  next
    case False
    with inv show ?thesis
      unfolding holding_inv_def eq remove_tree_def by auto
  qed
qed

lemma mkdir_fs:
  "fs (snd (mkdir p w)) = fs w \<or> (fs w p = None \<and> fs (snd (mkdir p w)) = (fs w)(p \<mapsto> Dir))"
  by (simp add: mkdir_def split: option.splits node.splits)

lemma mkdir_inv:
  assumes "holding_inv d w"
  shows "holding_inv d (snd (mkdir p w))"
proof -
  from mkdir_fs [of p w] show ?thesis
  proof
    assume "fs (snd (mkdir p w)) = fs w"
    with assms show ?thesis by (simp add: holding_inv_def)
  next
    assume a: "fs w p = None \<and> fs (snd (mkdir p w)) = (fs w)(p \<mapsto> Dir)"
    show ?thesis
    proof (cases "p = d")
      case True
      with a show ?thesis by (simp add: holding_inv_def)
    next
      case False
      with a assms show ?thesis unfolding holding_inv_def by auto
    qed
  qed
qed


lemma copy2_from_holding_inv:
  assumes "holding_inv d w" and "prefix d src"
  shows "holding_inv d (snd (copy2 src dst w))"
proof (cases "fs w d = Some Dir")
  case True
  then show ?thesis by (simp add: holding_inv_def copy2_keeps_dir)
next
  case False
  with assms have "\<And>b. fs w src \<noteq> Some (File b)"
    unfolding holding_inv_def by blast
  then have "snd (copy2 src dst w) = w"
    by (simp add: copy2_def Let_def split: option.splits node.splits)
  with assms show ?thesis by simp
qed

lemma cleanup_removes: "holding_inv d w \<Longrightarrow> fs (snd (cleanup d w)) d = None"
  unfolding holding_inv_def by (auto simp add: cleanup_def remove_tree_def)


lemma mkdtemp_names_Inr:
  "mkdtemp_names ds w = (Inr d, w1) \<Longrightarrow>
     fs w d = None \<and> fs w (butlast d) = Some Dir \<and> fs w1 = (fs w)(d \<mapsto> Dir) \<and>
     net w1 = net w \<and> trace w1 = trace w"
proof (induction ds arbitrary: w)
  case Nil
  then show ?case by simp
next
  case (Cons a ds)
  show ?case
  proof (cases "fs w a = None")
    case False
    then have "mkdtemp_names (a # ds) w = mkdtemp_names ds (w\<lparr>tmp_names := ds\<rparr>)"
      by (simp add: mkdir_def)
    with Cons.prems have "mkdtemp_names ds (w\<lparr>tmp_names := ds\<rparr>) = (Inr d, w1)"
      by simp
    from Cons.IH [OF this] show ?thesis by simp
  next
    case True
    show ?thesis
    proof (cases "fs w (butlast a)")
      case None
      with True Cons.prems show ?thesis by (simp add: mkdir_def)
    next
      case (Some n)
      with True Cons.prems show ?thesis by (cases n) (auto simp add: mkdir_def)
    qed
  qed
qed

lemma mkdtemp_names_Inl:
  "mkdtemp_names ds w = (Inl e, w1) \<Longrightarrow> fs w1 = fs w"
proof (induction ds arbitrary: w)
  case Nil
  then show ?case by auto
next
  case (Cons a ds)
  show ?case
  proof (cases "fs w a = None")
    case False
    then have "mkdtemp_names (a # ds) w = mkdtemp_names ds (w\<lparr>tmp_names := ds\<rparr>)"
      by (simp add: mkdir_def)
    with Cons.prems have "mkdtemp_names ds (w\<lparr>tmp_names := ds\<rparr>) = (Inl e, w1)"
      by simp
    from Cons.IH [OF this] show ?thesis by simp
  next
    case True
    show ?thesis
    proof (cases "fs w (butlast a)")
      case None
      with True Cons.prems show ?thesis by (auto simp add: mkdir_def)
    next
      case (Some n)
      with True Cons.prems show ?thesis by (cases n) (auto simp add: mkdir_def)
    qed
  qed
qed

lemma preserves_bnd:
  assumes "preserves d m" and "\<And>v. preserves d (f v)"
  shows "preserves d (bnd m f)"
  using assms unfolding preserves_def by (simp add: bnd_snd_cases split: sum.splits)

lemma preserves_emit: "preserves d (emit ev)"
  by (simp add: preserves_def emit_inv)

lemma preserves_rmtree: "preserves d (rmtree p)"
  by (simp add: preserves_def rmtree_inv)

lemma preserves_mkdir: "preserves d (mkdir p)"
  by (simp add: preserves_def mkdir_inv)

lemma preserves_copy2: "prefix d src \<Longrightarrow> preserves d (copy2 src dst)"
  by (simp add: preserves_def copy2_from_holding_inv)

lemma holding_body_inv:
  assumes "fs w1 d = Some Dir"
  shows "holding_inv d (snd (
        bnd (emit (Print Copying_local_tarfile)) (\<lambda>u.
        bnd (copy2 test_data_archive d) (\<lambda>u.
        bnd (emit (Print Deleting_test_dir)) (\<lambda>u.
        bnd (rmtree test_dir) (\<lambda>u.
        bnd (mkdir test_dir) (\<lambda>u.
        bnd (emit (Print Restoring_local_tarfile)) (\<lambda>u.
        copy2 (d @ basename test_data_archive) test_data_archive)))))) w1))"
proof -
  let ?rest = "bnd (emit (Print Deleting_test_dir)) (\<lambda>u.
        bnd (rmtree test_dir) (\<lambda>u.
        bnd (mkdir test_dir) (\<lambda>u.
        bnd (emit (Print Restoring_local_tarfile)) (\<lambda>u.
        copy2 (d @ basename test_data_archive) test_data_archive))))"
  let ?w2 = "snd (emit (Print Copying_local_tarfile) w1)"
  let ?w3 = "snd (copy2 test_data_archive d ?w2)"
  have rest: "preserves d ?rest"
    by (intro preserves_bnd preserves_emit preserves_rmtree preserves_mkdir preserves_copy2) simp
  have "fs ?w2 d = Some Dir"
    using assms by simp
  then have "fs ?w3 d = Some Dir"
    by (rule copy2_keeps_dir)
  then have w3: "holding_inv d ?w3"
    by (simp add: holding_inv_def)
  with rest have "holding_inv d (snd (?rest ?w3))"
    by (simp add: preserves_def)
  with w3 show ?thesis
    by (simp add: bnd_snd_cases emit_def split: sum.splits)
qed


text \<open>
  C9. Take any call of \<^verbatim>\<open>handle_existing_data\<close> with local-data preservation
  requested. When the holding directory \<open>d\<close> could be created, it does not exist when
  the call ends, whether the staged copy completed or one of its steps raised. When
  it could not be created, the call ends with that error and the file system is as it
  was, so there is nothing to remove.
\<close>

theorem holding_directory_removed_on_every_path:
  "(\<forall>d w1. mkdtemp w = (Inr d, w1) \<longrightarrow>
       fs (snd (handle_existing_data test_dir test_data_archive True w)) d = None) \<and>
   (\<forall>e w1. mkdtemp w = (Inl e, w1) \<longrightarrow>
       handle_existing_data test_dir test_data_archive True w = (Inl e, w1) \<and> fs w1 = fs w)"
proof (intro conjI allI impI)
  fix d w1 assume m: "mkdtemp w = (Inr d, w1)"
  then have "fs w1 d = Some Dir"
    using mkdtemp_names_Inr [of "tmp_names w" w d w1] by (simp add: mkdtemp_def)
  from cleanup_removes [OF holding_body_inv [OF this, of test_data_archive test_dir]]
  show "fs (snd (handle_existing_data test_dir test_data_archive True w)) d = None"
    by (simp add: handle_existing_data_def with_TemporaryDirectory_snd [OF m])
next
  fix e w1 assume m: "mkdtemp w = (Inl e, w1)"
  then show "handle_existing_data test_dir test_data_archive True w = (Inl e, w1)"
    by (simp add: handle_existing_data_def with_TemporaryDirectory_def)
  from m show "fs w1 = fs w"
    using mkdtemp_names_Inl [of "tmp_names w" w e w1] by (simp add: mkdtemp_def)
qed

theorem holding_directory_removed_when_copy_fails:
  "mkdtemp (sample_world fresh_fs []) =
     (Inr [''tmp'', ''tmp0''],
      \<lparr>fs = fresh_fs([''tmp'', ''tmp0''] \<mapsto> Dir), net = [], tmp_names = [], trace = []\<rparr>) \<and>
   fst (handle_existing_data [''repo'', ''.data''] [''repo'', ''.data'', ''test_data.tar.gz''] True
          (sample_world fresh_fs [])) = Inl FileNotFoundError \<and>
   fs (snd (handle_existing_data [''repo'', ''.data''] [''repo'', ''.data'', ''test_data.tar.gz''] True
          (sample_world fresh_fs []))) [''tmp'', ''tmp0''] = None"
proof -
  have h: "mkdtemp (sample_world fresh_fs []) =
     (Inr [''tmp'', ''tmp0''],
      \<lparr>fs = fresh_fs([''tmp'', ''tmp0''] \<mapsto> Dir), net = [], tmp_names = [], trace = []\<rparr>)"
    by (simp add: mkdtemp_def mkdir_def sample_world_def fresh_fs_def)
  have e: "fst (handle_existing_data [''repo'', ''.data''] [''repo'', ''.data'', ''test_data.tar.gz''] True
          (sample_world fresh_fs [])) = Inl FileNotFoundError"
    by (simp add: handle_existing_data_def with_TemporaryDirectory_def mkdtemp_def mkdir_def
        sample_world_def fresh_fs_def bnd_def emit_def copy2_def cleanup_def remove_tree_def)
  from holding_directory_removed_on_every_path
    [of "sample_world fresh_fs []" "[''repo'', ''.data'']" "[''repo'', ''.data'', ''test_data.tar.gz'']"]
  have "fs (snd (handle_existing_data [''repo'', ''.data''] [''repo'', ''.data'', ''test_data.tar.gz''] True
          (sample_world fresh_fs []))) [''tmp'', ''tmp0''] = None"
    using h by blast
  with h e show ?thesis by simp
qed

subsection \<open>Session setup at inputs where the module departs from its description\<close>

lemmas sample_defs = sample_world_def sample_fs_def fresh_fs_def sample_config_def sample_untar_def
  TEST_DATA_SUBDIR_def TEST_DATA_FILENAME_def

lemmas run_defs = pytest_configure_def get_test_data_sizes_def getsize_def bnd_def emit_def
  raise_def Let_def urlopen_def urlretrieve_def extract_tar_def download_and_extract_data_def
  remote_size_failed_def lookup_name_def get_test_data_sizes_locals_def module_globals_def
  write_bytes_def

text \<open>
  C1. The length query fails while a local archive of three bytes exists and
  \<^verbatim>\<open>--use_local_test_data\<close> is not set. The module logs the failure at error level and
  then builds the message of the fallback, which names \<^verbatim>\<open>test_dir\<close>; that name is
  not bound in \<^verbatim>\<open>get_test_data_sizes\<close>, so the hook ends with \<^verbatim>\<open>NameError\<close>
  instead of going on with the local archive.
\<close>

theorem remote_failure_with_local_archive_raises_NameError:
  "pytest_configure sample_untar [''repo''] (sample_config False False)
      (sample_world sample_fs [Unreachable]) =
     (Inl (NameError ''test_dir''),
      \<lparr>fs = sample_fs, net = [], tmp_names = [[''tmp'', ''tmp0'']],
        trace = ini_events @ [Urlopen (TEST_DATA_URL @ TEST_DATA_FILENAME),
                              Logging_error Failed_to_retrieve_remote_size]\<rparr>)"
  by (simp add: run_defs sample_defs ini_events_def)

text \<open>
  C3. The remote archive has five bytes, the local one three, and the data directory
  holds a file of an earlier extraction. The hook downloads and extracts the new
  archive, and the earlier file is still there afterwards. On a checkout without data
  directory the download itself fails, since the directory that is to hold the archive
  does not exist.
\<close>

theorem size_mismatch_keeps_stale_file:
  "fst (pytest_configure sample_untar [''repo''] (sample_config False False)
      (sample_world sample_fs [Reply (Some 5) ''NEWER'', Reply (Some 5) ''NEWER''])) = Inr () \<and>
   fs (snd (pytest_configure sample_untar [''repo''] (sample_config False False)
      (sample_world sample_fs [Reply (Some 5) ''NEWER'', Reply (Some 5) ''NEWER''])))
      [''repo'', ''.data'', ''test_data.tar.gz''] = Some (File ''NEWER'') \<and>
   fs (snd (pytest_configure sample_untar [''repo''] (sample_config False False)
      (sample_world sample_fs [Reply (Some 5) ''NEWER'', Reply (Some 5) ''NEWER''])))
      [''repo'', ''.data'', ''a.txt''] = Some (File ''A'') \<and>
   fs (snd (pytest_configure sample_untar [''repo''] (sample_config False False)
      (sample_world sample_fs [Reply (Some 5) ''NEWER'', Reply (Some 5) ''NEWER''])))
      [''repo'', ''.data'', ''stale.txt''] = Some (File ''S'') \<and>
   fst (pytest_configure sample_untar [''repo''] (sample_config False False)
      (sample_world fresh_fs [Reply (Some 5) ''NEWER'', Reply (Some 5) ''NEWER''])) = Inl FileNotFoundError"
  by (simp add: run_defs sample_defs write_member_def)

text \<open>
  C4. The data directory exists and preservation is not requested.
  \<^verbatim>\<open>handle_existing_data\<close> deletes the directory and returns; nothing recreates it,
  so it does not exist when \<^verbatim>\<open>extract_data_from_tar\<close> goes on, and both ways on
  (extracting the local archive, downloading a new one) fail for want of it.
\<close>

theorem existing_directory_deleted_not_recreated:
  "handle_existing_data [''repo'', ''.data''] [''repo'', ''.data'', ''test_data.tar.gz''] False
      (sample_world sample_fs []) =
     (Inr (), sample_world (remove_tree [''repo'', ''.data''] sample_fs) []) \<and>
   remove_tree [''repo'', ''.data''] sample_fs [''repo'', ''.data''] = None \<and>
   fst (extract_data_from_tar sample_untar [''repo'', ''.data'']
         [''repo'', ''.data'', ''test_data.tar.gz''] None False (sample_world sample_fs []))
     = Inl FileNotFoundError \<and>
   fst (extract_data_from_tar sample_untar [''repo'', ''.data'']
         [''repo'', ''.data'', ''test_data.tar.gz''] (Some (TEST_DATA_URL @ TEST_DATA_FILENAME)) False
         (sample_world sample_fs [Reply (Some 5) ''NEWER''])) = Inl FileNotFoundError"
  by (simp add: run_defs sample_defs handle_existing_data_def rmtree_def remove_tree_def
      extract_data_from_tar_def exists_def TEST_DATA_URL_def)

subsection \<open>The archive across the directory wipe\<close>

lemma wf_fs_ancestor: "wf_fs f \<Longrightarrow> f (p @ r) \<noteq> None \<Longrightarrow> f p \<noteq> None"
proof (induction r rule: rev_induct)
  case Nil
  then show ?case by simp
next
  case (snoc x xs)
  from snoc.prems have "f (butlast (p @ xs @ [x])) = Some Dir"
    unfolding wf_fs_def by (metis append_is_Nil_conv not_Cons_self2 append.assoc)
  then have "f (p @ xs) \<noteq> None"
    by (simp add: butlast_append)
  with snoc.IH snoc.prems(1) show ?case by blast
qed

lemma wf_fs_parent: "wf_fs f \<Longrightarrow> f p \<noteq> None \<Longrightarrow> p \<noteq> [] \<Longrightarrow> f (butlast p) = Some Dir"
  by (simp add: wf_fs_def)


lemma not_prefix_snoc: "\<not> prefix p q \<Longrightarrow> \<not> prefix q p \<Longrightarrow> \<not> prefix p (q @ [x])"
  by (metis prefix_snoc prefix_order.order_refl prefix_order.trans prefixI)

text \<open>
  C7. Let the data directory exist in a well-formed file system and hold the archive
  \<open>b\<close> under the name \<open>name\<close>, as \<^verbatim>\<open>pytest_configure\<close> places it; let the
  holding directory \<open>d\<close> be created, outside the data directory. Then
  \<^verbatim>\<open>handle_existing_data\<close> with preservation requested returns normally, and
  afterwards the archive is at its path with the same bytes \<open>b\<close>, the data directory
  exists and holds nothing else, the holding directory is gone, and every other path
  is as before.
\<close>

theorem archive_survives_directory_wipe:
  assumes wf: "wf_fs (fs w)"
    and dir: "fs w test_dir = Some Dir"
    and arch: "fs w (test_dir @ [name]) = Some (File b)"
    and tmp: "mkdtemp w = (Inr d, w1)"
    and out: "\<not> prefix test_dir d"
  shows "fst (handle_existing_data test_dir (test_dir @ [name]) True w) = Inr () \<and>
         fs (snd (handle_existing_data test_dir (test_dir @ [name]) True w)) =
           (\<lambda>q. if q = test_dir @ [name] then Some (File b)
                else if q = test_dir then Some Dir
                else if prefix test_dir q \<or> prefix d q then None
                else fs w q)"
proof -
  from tmp have m: "fs w d = None" "fs w (butlast d) = Some Dir" "fs w1 = (fs w)(d \<mapsto> Dir)"
    using mkdtemp_names_Inr [of "tmp_names w" w d w1] by (simp_all add: mkdtemp_def)
  have nd: "\<not> prefix d test_dir"
  proof
    assume "prefix d test_dir"
    then obtain r where "test_dir = d @ r" by (auto simp: prefix_def)
    with dir wf_fs_ancestor [OF wf, of d r] m(1) show False by simp
  qed
  have ne: "test_dir \<noteq> []"
    using out by auto
  have par: "fs w (butlast test_dir) = Some Dir"
    using wf_fs_parent [OF wf _ ne] dir by simp
  have staged: "fs w (d @ [name]) = None"
    using wf_fs_ancestor [OF wf, of d "[name]"] m(1) by (cases "fs w (d @ [name])") auto
  have p1: "\<not> prefix test_dir (d @ [name])"
    by (rule not_prefix_snoc [OF out nd])
  have p2: "\<not> prefix d (test_dir @ [name])"
    by (rule not_prefix_snoc [OF nd out])
  have p3: "\<not> prefix test_dir (butlast test_dir)"
    using ne by (metis append_butlast_last_id prefix_snoc prefix_order.antisym_conv same_prefix_nil prefixI not_Cons_self2 append_self_conv)
  have q4: "butlast test_dir \<noteq> d @ [name]"
  proof
    assume e: "butlast test_dir = d @ [name]"
    have "test_dir = butlast test_dir @ [last test_dir]"
      using ne by simp
    with e have "test_dir = d @ ([name] @ [last test_dir])"
      by simp
    then have "prefix d test_dir"
      by (rule prefixI)
    with nd show False by simp
  qed
  have q: "d \<noteq> test_dir" "d \<noteq> test_dir @ [name]" "test_dir \<noteq> d @ [name]"
    "d @ [name] \<noteq> test_dir @ [name]"
    using out nd p1 p2 by auto
  have q3: "butlast test_dir \<noteq> d"
    using m(1) par by auto
  have run: "handle_existing_data test_dir (test_dir @ [name]) True w =
      (Inr (), w1\<lparr>trace := trace w1 @ [Print Copying_local_tarfile, Print Deleting_test_dir,
                                         Print Restoring_local_tarfile],
                 fs := remove_tree d
                   ((remove_tree test_dir ((fs w1)(d @ [name] \<mapsto> File b)))
                      (test_dir \<mapsto> Dir, test_dir @ [name] \<mapsto> File b))\<rparr>)"
    using dir arch m staged p1 p2 p3 q q3 q4 out nd par
    by (simp add: handle_existing_data_def with_TemporaryDirectory_def tmp bnd_def emit_def
        copy2_def write_bytes_def rmtree_def mkdir_def cleanup_def remove_tree_def basename_def)
  have "fs (snd (handle_existing_data test_dir (test_dir @ [name]) True w)) =
           (\<lambda>q. if q = test_dir @ [name] then Some (File b)
                else if q = test_dir then Some Dir
                else if prefix test_dir q \<or> prefix d q then None
                else fs w q)"
    using m staged p1 p2 q out nd
    by (auto simp add: run remove_tree_def fun_eq_iff)
  then show ?thesis by (simp add: run)
qed


theorem archive_survives_wipe_of_sample_directory:
  "wf_fs (fs (sample_world sample_fs [])) \<and>
   fs (sample_world sample_fs []) [''repo'', ''.data''] = Some Dir \<and>
   fs (sample_world sample_fs []) ([''repo'', ''.data''] @ [''test_data.tar.gz'']) = Some (File ''OLD'') \<and>
   mkdtemp (sample_world sample_fs []) =
     (Inr [''tmp'', ''tmp0''],
      \<lparr>fs = sample_fs([''tmp'', ''tmp0''] \<mapsto> Dir), net = [], tmp_names = [], trace = []\<rparr>) \<and>
   \<not> prefix [''repo'', ''.data''] [''tmp'', ''tmp0''] \<and>
   fst (handle_existing_data [''repo'', ''.data''] ([''repo'', ''.data''] @ [''test_data.tar.gz'']) True
          (sample_world sample_fs [])) = Inr () \<and>
   fs (snd (handle_existing_data [''repo'', ''.data''] ([''repo'', ''.data''] @ [''test_data.tar.gz'']) True
          (sample_world sample_fs []))) [''repo'', ''.data'', ''test_data.tar.gz''] = Some (File ''OLD'') \<and>
   fs (snd (handle_existing_data [''repo'', ''.data''] ([''repo'', ''.data''] @ [''test_data.tar.gz'']) True
          (sample_world sample_fs []))) [''repo'', ''.data'', ''stale.txt''] = None \<and>
   fs (snd (handle_existing_data [''repo'', ''.data''] ([''repo'', ''.data''] @ [''test_data.tar.gz'']) True
          (sample_world sample_fs []))) [''tmp'', ''tmp0''] = None"
proof -
  have h1: "wf_fs (fs (sample_world sample_fs []))"
    by (auto simp add: wf_fs_def sample_world_def sample_fs_def split: if_splits)
  have h2: "fs (sample_world sample_fs []) [''repo'', ''.data''] = Some Dir"
    by (simp add: sample_world_def sample_fs_def)
  have h3: "fs (sample_world sample_fs []) ([''repo'', ''.data''] @ [''test_data.tar.gz''])
      = Some (File ''OLD'')"
    by (simp add: sample_world_def sample_fs_def)
  have h4: "mkdtemp (sample_world sample_fs []) =
     (Inr [''tmp'', ''tmp0''],
      \<lparr>fs = sample_fs([''tmp'', ''tmp0''] \<mapsto> Dir), net = [], tmp_names = [], trace = []\<rparr>)"
    by (simp add: mkdtemp_def mkdir_def sample_world_def sample_fs_def)
  have h5: "\<not> prefix [''repo'', ''.data''] [''tmp'', ''tmp0'']"
    by simp
  note r = archive_survives_directory_wipe [OF h1 h2 h3 h4 h5]
  from r have a: "fst (handle_existing_data [''repo'', ''.data'']
      ([''repo'', ''.data''] @ [''test_data.tar.gz'']) True (sample_world sample_fs [])) = Inr ()"
    by (rule conjunct1)
  from r have f: "fs (snd (handle_existing_data [''repo'', ''.data'']
      [''repo'', ''.data'', ''test_data.tar.gz''] True (sample_world sample_fs []))) =
        (\<lambda>q. if q = [''repo'', ''.data'', ''test_data.tar.gz''] then Some (File ''OLD'')
             else if q = [''repo'', ''.data''] then Some Dir
             else if prefix [''repo'', ''.data''] q \<or> prefix [''tmp'', ''tmp0''] q then None
             else fs (sample_world sample_fs []) q)"
    by simp
  show ?thesis
    using h1 h2 h3 h4 a by (simp add: f)
qed

end
